theory Spec2Isabelle
  imports
    Complex_Main
    "HOL-Library.Char_ord"
    "HOL-Library.List_Lexorder"
    "HOL-Library.Product_Lexorder"
    "HOL-Library.Sublist"
begin

section \<open>Data model\<close>

text \<open>
  A spreadsheet cell as pandas holds it after \<^verbatim>\<open>read_excel\<close>: a number, the missing value
  \<^verbatim>\<open>nan\<close>, or a non-numeric object (text). Numbers are exact reals: rounding, overflow and
  the infinities of binary floating point are outside this model.
\<close>

datatype cell = Num real | NaN | Str string

text \<open>
  A row (\<^verbatim>\<open>pandas.Series\<close>) maps column labels to cells; a table is the list of its rows,
  in order.
\<close>

type_synonym row = "string \<rightharpoonup> cell"

datatype py_error = KeyError | TypeError | ZeroDivisionError | ValueError

text \<open>The three keys of the \<^verbatim>\<open>metrics\<close> dictionary, in insertion order.\<close>

datatype metric = Total_Revenue | Net_Income | EBITDA

definition metric_names :: "metric list" where
  "metric_names = [Total_Revenue, Net_Income, EBITDA]"

fun metrics :: "metric \<Rightarrow> string list" where
  "metrics Total_Revenue =
     [''Total Revenue [LTM - 16]'', ''Total Revenue [LTM - 12]'',
      ''Total Revenue [LTM - 8]'', ''Total Revenue [LTM - 4]'', ''Total Revenue [LTM]'']"
| "metrics Net_Income =
     [''Net Income [LTM - 16]'', ''Net Income [LTM - 12]'',
      ''Net Income [LTM - 8]'', ''Net Income [LTM - 4]'', ''Net Income [LTM]'']"
| "metrics EBITDA =
     [''EBITDA [LTM - 16]'', ''EBITDA [LTM - 12]'',
      ''EBITDA [LTM - 8]'', ''EBITDA [LTM - 4]'', ''EBITDA [LTM]'']"

text \<open>
  The dictionary \<^verbatim>\<open>company_growth\<close>. The keys \<^verbatim>\<open>f'{metric_name}_Growth_Rates'\<close> and
  \<^verbatim>\<open>f'{metric_name}_Avg_Growth'\<close> are the fields \<open>Growth_Rates\<close> and \<open>Avg_Growth\<close> at
  the metric. A growth-rate slot is Python's \<^verbatim>\<open>None\<close> or a number; in \<open>Avg_Growth\<close> the
  value \<open>None\<close> stands for the float \<^verbatim>\<open>nan\<close> that \<^verbatim>\<open>np.mean\<close> gives for an empty list.
\<close>

record company_growth =
  Ticker :: cell
  Company_Name :: cell
  Sector :: cell
  Growth_Rates :: "metric \<Rightarrow> real option list"
  Avg_Growth :: "metric \<Rightarrow> real option"

text \<open>
  A row of the table returned by \<^verbatim>\<open>calculate_sector_growth\<close>: the column \<^verbatim>\<open>Sector\<close> and the
  three columns \<^verbatim>\<open>f'{metric_name}_Avg_Growth'\<close> (\<open>None\<close> again for \<^verbatim>\<open>nan\<close>).
\<close>

record sector_growth =
  sg_Sector :: cell
  sg_Avg_Growth :: "metric \<Rightarrow> real option"

section \<open>Loader\<close>

text \<open>
  \<^verbatim>\<open>financial_df.merge(sector_df, left_on='Exchange:Ticker', right_on='Ticker', how='left')\<close>.
  The second tab is read without a header and its two columns are named \<^verbatim>\<open>Ticker\<close> and
  \<^verbatim>\<open>Sector\<close>, so it is a list of pairs. A column of the left table whose label clashes with
  one of these is renamed with the suffix \<^verbatim>\<open>_x\<close>, the right one then gets \<^verbatim>\<open>_y\<close>.
\<close>

definition rename_x :: "string \<Rightarrow> row \<Rightarrow> row" where
  "rename_x c l = (case l c of None \<Rightarrow> l | Some v \<Rightarrow> (l(c := None))(c @ ''_x'' \<mapsto> v))"

definition right_name :: "row \<Rightarrow> string \<Rightarrow> string" where
  "right_name l c = (if l c = None then c else c @ ''_y'')"

definition merged_row :: "row \<Rightarrow> cell \<Rightarrow> cell \<Rightarrow> row" where
  "merged_row l t s =
     (rename_x ''Sector'' (rename_x ''Ticker'' l))
       (right_name l ''Ticker'' \<mapsto> t, right_name l ''Sector'' \<mapsto> s)"

text \<open>
  The rows a left row contributes: one per right row with an equal key, in the right
  table's order, or a single row with missing right columns when no key is equal.
\<close>

definition matches :: "row \<Rightarrow> cell \<Rightarrow> (cell \<times> cell) list \<Rightarrow> row list" where
  "matches l k sector_df =
     (let ms = filter (\<lambda>(t, s). t = k) sector_df
      in if ms = [] then [merged_row l NaN NaN]
         else map (\<lambda>(t, s). merged_row l t s) ms)"

text \<open>
  The dtype of a key column: \<^verbatim>\<open>object\<close> when one of its cells is text, a numeric dtype
  otherwise. For an \<^verbatim>\<open>object\<close> column \<^verbatim>\<open>infer_dtype\<close> answers \<^verbatim>\<open>string\<close> or \<^verbatim>\<open>mixed\<close>, unless
  one of the cells is an integer (then \<^verbatim>\<open>mixed-integer\<close>).
\<close>

fun is_text :: "cell \<Rightarrow> bool" where
  "is_text (Str s) = True"
| "is_text _ = False"

fun is_integer :: "cell \<Rightarrow> bool" where
  "is_integer (Num x) = (real_of_int \<lfloor>x\<rfloor> = x)"
| "is_integer _ = False"

definition object_dtype :: "cell list \<Rightarrow> bool" where
  "object_dtype col = list_ex is_text col"

definition string_like :: "cell list \<Rightarrow> bool" where
  "string_like col = (object_dtype col \<and> \<not> list_ex is_integer col)"

text \<open>
  \<^verbatim>\<open>merge\<close> raises \<^verbatim>\<open>ValueError\<close> ("You are trying to merge on object and int64 columns")
  when one key column is string-like and the other numeric, unless one of them is empty.
\<close>

definition incompatible_keys :: "cell list \<Rightarrow> cell list \<Rightarrow> bool" where
  "incompatible_keys lk rk =
     (lk \<noteq> [] \<and> rk \<noteq> [] \<and>
      ((string_like lk \<and> \<not> object_dtype rk) \<or> (string_like rk \<and> \<not> object_dtype lk)))"

text \<open>The key column \<^verbatim>\<open>Exchange:Ticker\<close> of the left table; \<^verbatim>\<open>KeyError\<close> when it is missing.\<close>

fun left_keys :: "row list \<Rightarrow> py_error + cell list" where
  "left_keys [] = Inr []"
| "left_keys (l # ls) =
     (case l ''Exchange:Ticker'' of
        None \<Rightarrow> Inl KeyError
      | Some k \<Rightarrow> (case left_keys ls of Inl e \<Rightarrow> Inl e | Inr ks \<Rightarrow> Inr (k # ks)))"

definition merge_left :: "row list \<Rightarrow> (cell \<times> cell) list \<Rightarrow> py_error + row list" where
  "merge_left financial_df sector_df =
     (case left_keys financial_df of
        Inl e \<Rightarrow> Inl e
      | Inr lk \<Rightarrow>
          if incompatible_keys lk (map fst sector_df) then Inl ValueError
          else Inr (concat (map (\<lambda>(l, k). matches l k sector_df) (zip financial_df lk))))"

text \<open>
  The two sheets are the arguments. An empty second sheet is read as a table without
  columns, and \<^verbatim>\<open>sector_df.columns = ['Ticker', 'Sector']\<close> then raises \<^verbatim>\<open>ValueError\<close>; a second
  sheet with data has the two columns of its type here.
\<close>

definition load_and_preprocess_data ::
  "row list \<Rightarrow> (cell \<times> cell) list \<Rightarrow> py_error + row list" where
  "load_and_preprocess_data financial_df sector_df =
     (if sector_df = [] then Inl ValueError else merge_left financial_df sector_df)"

section \<open>Growth calculator\<close>

definition lookup :: "row \<Rightarrow> string \<Rightarrow> py_error + cell" where
  "lookup r c = (case r c of None \<Rightarrow> Inl KeyError | Some v \<Rightarrow> Inr v)"

fun isna :: "cell \<Rightarrow> bool" where
  "isna NaN = True"
| "isna _ = False"

text \<open>\<^verbatim>\<open>previous_value == 0\<close>: text is never equal to zero.\<close>

fun eq_zero :: "cell \<Rightarrow> bool" where
  "eq_zero (Num x) = (x = 0)"
| "eq_zero _ = False"

definition py_truediv :: "real \<Rightarrow> real \<Rightarrow> py_error + real" where
  "py_truediv a b = (if b = 0 then Inl ZeroDivisionError else Inr (a / b))"

text \<open>
  The body of the \<^verbatim>\<open>try\<close> block for one slot. Past the guard neither value is \<^verbatim>\<open>nan\<close>, so
  an operand that is not a number is text, on which \<^verbatim>\<open>-\<close> raises \<^verbatim>\<open>TypeError\<close>.
\<close>

definition slot_try :: "row \<Rightarrow> string \<Rightarrow> string \<Rightarrow> py_error + real option" where
  "slot_try r ci cp =
     (case lookup r ci of
        Inl e \<Rightarrow> Inl e
      | Inr current_value \<Rightarrow>
     (case lookup r cp of
        Inl e \<Rightarrow> Inl e
      | Inr previous_value \<Rightarrow>
          if isna current_value \<or> isna previous_value \<or> eq_zero previous_value
          then Inr None
          else (case (current_value, previous_value) of
                  (Num c, Num p) \<Rightarrow>
                    (case py_truediv (c - p) p of
                       Inl e \<Rightarrow> Inl e
                     | Inr q \<Rightarrow> Inr (Some (q * 100)))
                | _ \<Rightarrow> Inl TypeError)))"

text \<open>\<^verbatim>\<open>try: ... except Exception: growth_rates.append(None)\<close>.\<close>

definition slot :: "row \<Rightarrow> string \<Rightarrow> string \<Rightarrow> real option" where
  "slot r ci cp = (case slot_try r ci cp of Inl e \<Rightarrow> None | Inr g \<Rightarrow> g)"

text \<open>\<^verbatim>\<open>for i in range(1, len(columns))\<close>.\<close>

definition growth_rates :: "row \<Rightarrow> string list \<Rightarrow> real option list" where
  "growth_rates r columns =
     map (\<lambda>i. slot r (columns ! i) (columns ! (i - 1))) [1 ..< length columns]"

text \<open>\<^verbatim>\<open>[g for g in growth_rates if g is not None]\<close>.\<close>

fun not_None :: "real option list \<Rightarrow> real list" where
  "not_None [] = []"
| "not_None (None # gs) = not_None gs"
| "not_None (Some g # gs) = g # not_None gs"

text \<open>\<^verbatim>\<open>np.mean\<close>: \<^verbatim>\<open>nan\<close> (here \<open>None\<close>) for an empty list.\<close>

definition np_mean :: "real list \<Rightarrow> real option" where
  "np_mean xs = (if xs = [] then None else Some (sum_list xs / real (length xs)))"

text \<open>The body of the loop over the rows; the three lookups stand outside any \<^verbatim>\<open>try\<close>.\<close>

definition row_growth :: "row \<Rightarrow> py_error + company_growth" where
  "row_growth r =
     (case lookup r ''Exchange:Ticker'' of Inl e \<Rightarrow> Inl e | Inr ticker \<Rightarrow>
     (case lookup r ''Company Name'' of Inl e \<Rightarrow> Inl e | Inr name \<Rightarrow>
     (case lookup r ''Sector'' of Inl e \<Rightarrow> Inl e | Inr sector \<Rightarrow>
        Inr \<lparr>Ticker = ticker, Company_Name = name, Sector = sector,
             Growth_Rates = (\<lambda>m. growth_rates r (metrics m)),
             Avg_Growth = (\<lambda>m. np_mean (not_None (growth_rates r (metrics m))))\<rparr>)))"

fun calculate_growth_rates :: "row list \<Rightarrow> py_error + company_growth list" where
  "calculate_growth_rates [] = Inr []"
| "calculate_growth_rates (r # df) =
     (case row_growth r of
        Inl e \<Rightarrow> Inl e
      | Inr company_growth \<Rightarrow>
          (case calculate_growth_rates df of
             Inl e \<Rightarrow> Inl e
           | Inr company_growth_data \<Rightarrow> Inr (company_growth # company_growth_data)))"

section \<open>Sector aggregator\<close>

text \<open>
  The median of pandas, on the values that are not \<^verbatim>\<open>nan\<close>: the middle element of the
  sorted values, the mean of the two middle ones for an even count, \<^verbatim>\<open>nan\<close> for none.
\<close>

definition median :: "real list \<Rightarrow> real option" where
  "median xs =
     (if xs = [] then None
      else let s = sort xs; n = length s
           in if odd n then Some (s ! (n div 2))
              else Some ((s ! (n div 2 - 1) + s ! (n div 2)) / 2))"

text \<open>
  \<^verbatim>\<open>groupby('Sector')\<close> with its defaults \<^verbatim>\<open>dropna=True\<close> and \<^verbatim>\<open>sort=True\<close>: the group keys
  are the distinct sector values that are not missing, numbers before text, each in
  ascending order.
\<close>

fun sector_key :: "cell \<Rightarrow> nat \<times> real \<times> string" where
  "sector_key (Num x) = (0, x, [])"
| "sector_key (Str s) = (1, 0, s)"
| "sector_key NaN = (2, 0, [])"

definition group_keys :: "company_growth list \<Rightarrow> cell list" where
  "group_keys growth_df =
     sort_key sector_key (remdups (filter (\<lambda>s. \<not> isna s) (map Sector growth_df)))"

definition group_rows :: "company_growth list \<Rightarrow> cell \<Rightarrow> company_growth list" where
  "group_rows growth_df k = filter (\<lambda>r. Sector r = k) growth_df"

definition calculate_sector_growth :: "company_growth list \<Rightarrow> sector_growth list" where
  "calculate_sector_growth growth_df =
     map (\<lambda>k. \<lparr>sg_Sector = k,
               sg_Avg_Growth = (\<lambda>m. median (not_None (map (\<lambda>r. Avg_Growth r m)
                                                          (group_rows growth_df k))))\<rparr>)
         (group_keys growth_df)"

section \<open>Filter layer\<close>

text \<open>
  \<^verbatim>\<open>df[df['Sector'].isin(selected_sectors)]\<close>: a new table of the rows whose sector is one
  of the selected values (\<^verbatim>\<open>isin\<close> matches a missing value with a missing value).
\<close>

definition isin :: "cell \<Rightarrow> cell list \<Rightarrow> bool" where
  "isin s selected_sectors = (s \<in> set selected_sectors)"

record dashboard =
  growth_df :: "company_growth list"
  sector_growth_df :: "sector_growth list"
  filtered_growth_df :: "company_growth list"
  filtered_sector_growth_df :: "sector_growth list"

text \<open>
  The tables \<^verbatim>\<open>main\<close> holds when it reaches the tabs, for the two parsed tabs of the
  uploaded file and the user's selection of sectors.
\<close>

definition main :: "row list \<Rightarrow> (cell \<times> cell) list \<Rightarrow> cell list \<Rightarrow> py_error + dashboard" where
  "main tab0 tab1 selected_sectors =
     (case load_and_preprocess_data tab0 tab1 of
        Inl e \<Rightarrow> Inl e
      | Inr financial_df \<Rightarrow>
     (case calculate_growth_rates financial_df of
        Inl e \<Rightarrow> Inl e
      | Inr g \<Rightarrow>
          let sg = calculate_sector_growth g
          in Inr \<lparr>growth_df = g, sector_growth_df = sg,
                  filtered_growth_df = filter (\<lambda>r. isin (Sector r) selected_sectors) g,
                  filtered_sector_growth_df =
                    filter (\<lambda>r. isin (sg_Sector r) selected_sectors) sg\<rparr>))"

section \<open>Sample inputs\<close>

text \<open>
  Company B of the specification's scenario (revenue snapshots 0, 50, 55, 60, 66), with net
  income values that are missing, zero and text, and no EBITDA columns at all.
\<close>

definition company_B :: row where
  "company_B = map_of
     [(''Exchange:Ticker'', Str ''NSEI:B''), (''Company Name'', Str ''B Ltd''),
      (''Sector'', Str ''Tech''),
      (''Total Revenue [LTM - 16]'', Num 0), (''Total Revenue [LTM - 12]'', Num 50),
      (''Total Revenue [LTM - 8]'', Num 55), (''Total Revenue [LTM - 4]'', Num 60),
      (''Total Revenue [LTM]'', Num 66),
      (''Net Income [LTM - 16]'', Num 8), (''Net Income [LTM - 12]'', NaN),
      (''Net Income [LTM - 8]'', Num 4), (''Net Income [LTM - 4]'', Num 0),
      (''Net Income [LTM]'', Str ''n/a'')]"

text \<open>
  A company with no sector, without the column \<^verbatim>\<open>Total Revenue [LTM - 8]\<close> and without any
  net income or EBITDA column; its latest revenue is zero.
\<close>

definition company_gap :: row where
  "company_gap = map_of
     [(''Exchange:Ticker'', Str ''NSEI:A''), (''Company Name'', Str ''A Ltd''),
      (''Sector'', NaN),
      (''Total Revenue [LTM - 16]'', Num 100), (''Total Revenue [LTM - 12]'', Num 110),
      (''Total Revenue [LTM - 4]'', Num 121), (''Total Revenue [LTM]'', Num 0)]"

text \<open>
  Growth records for the sector aggregator: the sector \<^verbatim>\<open>Tech\<close> with the company averages
  10, undefined and 20 of the specification's scenario, a company without a sector, and
  the sector \<^verbatim>\<open>Fin\<close> whose only company has no defined average.
\<close>

definition sample_growth :: "string \<Rightarrow> cell \<Rightarrow> real option \<Rightarrow> company_growth" where
  "sample_growth ticker sector avg =
     \<lparr>Ticker = Str ticker, Company_Name = Str ticker, Sector = sector,
      Growth_Rates = (\<lambda>m. [avg, avg, avg, avg]), Avg_Growth = (\<lambda>m. avg)\<rparr>"

definition sample_growth_df :: "company_growth list" where
  "sample_growth_df =
     [sample_growth ''T1'' (Str ''Tech'') (Some 10),
      sample_growth ''X1'' NaN (Some 7),
      sample_growth ''T2'' (Str ''Tech'') None,
      sample_growth ''F1'' (Str ''Fin'') None,
      sample_growth ''T3'' (Str ''Tech'') (Some 20)]"

text \<open>
  The two companies as rows of the primary tab, before the join, and three secondary tabs:
  one that lists company B once and company A not at all, one that lists company B twice,
  and one whose tickers are numbers.
\<close>

definition financial_B :: row where
  "financial_B = company_B(''Sector'' := None)"

definition financial_gap :: row where
  "financial_gap = company_gap(''Sector'' := None)"

definition sector_tab :: "(cell \<times> cell) list" where
  "sector_tab = [(Str ''NSEI:Z'', Str ''Fin''), (Str ''NSEI:B'', Str ''Tech'')]"

definition sector_tab_dup :: "(cell \<times> cell) list" where
  "sector_tab_dup = [(Str ''NSEI:B'', Str ''Tech''), (Str ''NSEI:B'', Str ''Fin'')]"

definition sector_tab_codes :: "(cell \<times> cell) list" where
  "sector_tab_codes = [(Num 500325, Str ''Energy''), (Num 532540, Str ''Tech'')]"

section \<open>Rows of the growth table\<close>

lemma calculate_growth_rates_rows:
  "calculate_growth_rates df = Inr out \<Longrightarrow>
     length out = length df \<and> (\<forall>j < length df. row_growth (df ! j) = Inr (out ! j))"
proof (induction df arbitrary: out)
  case Nil
  then show ?case by simp
next
  case (Cons r df)
  from Cons.prems obtain cg rest where
    cg: "row_growth r = Inr cg" and rest: "calculate_growth_rates df = Inr rest"
    and out: "out = cg # rest"
    by (auto split: sum.splits)
  from Cons.IH [OF rest] have ih: "length rest = length df"
    "\<forall>j < length df. row_growth (df ! j) = Inr (rest ! j)" by simp_all
  show ?case
  proof (intro conjI allI impI)
    show "length out = length (r # df)" using out ih by simp
  next
    fix j assume "j < length (r # df)"
    then show "row_growth ((r # df) ! j) = Inr (out ! j)"
      using cg out ih by (cases j) simp_all
  qed
qed

lemma row_growth_fields:
  "row_growth r = Inr cg \<Longrightarrow>
     Growth_Rates cg m = growth_rates r (metrics m) \<and>
     Avg_Growth cg m = np_mean (not_None (growth_rates r (metrics m)))"
  by (auto simp: row_growth_def split: sum.splits)

lemma length_metrics: "length (metrics m) = 5"
  by (cases m) simp_all

lemma upt_1_5: "[Suc 0 ..< 5] = [Suc 0, 2, 3, 4]"
  by (simp add: upt_rec)

lemma growth_rates_metrics:
  "growth_rates r (metrics m) =
     [slot r (metrics m ! 1) (metrics m ! 0), slot r (metrics m ! 2) (metrics m ! 1),
      slot r (metrics m ! 3) (metrics m ! 2), slot r (metrics m ! 4) (metrics m ! 3)]"
  by (simp add: growth_rates_def length_metrics upt_1_5)

lemma growth_rates_nth:
  "k < 4 \<Longrightarrow> growth_rates r (metrics m) ! k = slot r (metrics m ! Suc k) (metrics m ! k)"
  by (simp add: growth_rates_def length_metrics)

lemma slot_cases:
  "slot r ci cp =
     (case (r ci, r cp) of
        (Some (Num c), Some (Num p)) \<Rightarrow> if p = 0 then None else Some ((c - p) / p * 100)
      | _ \<Rightarrow> None)"
  by (auto simp: slot_def slot_try_def lookup_def py_truediv_def
           split: option.splits cell.splits)

lemma slot_try_no_zero_division: "slot_try r ci cp \<noteq> Inl ZeroDivisionError"
  by (auto simp: slot_try_def lookup_def py_truediv_def split: option.splits cell.splits sum.splits)

lemma not_None_eq: "not_None gs = map the (filter (\<lambda>g. g \<noteq> None) gs)"
  by (induction gs rule: not_None.induct) simp_all

lemma calculate_growth_rates_total:
  "\<forall>r \<in> set df. r ''Exchange:Ticker'' \<noteq> None \<and> r ''Company Name'' \<noteq> None \<and> r ''Sector'' \<noteq> None
   \<Longrightarrow> \<exists>out. calculate_growth_rates df = Inr out"
proof (induction df)
  case Nil
  then show ?case by simp
next
  case (Cons r df)
  then obtain rest where "calculate_growth_rates df = Inr rest" by auto
  moreover from Cons.prems obtain cg where "row_growth r = Inr cg"
    by (auto simp: row_growth_def lookup_def)
  ultimately show ?case by simp
qed

text \<open>
  C1. For every row, metric and each of the four consecutive snapshot pairs: when either
  endpoint is missing (the column is absent), \<^verbatim>\<open>nan\<close> or not a number, or the prior value
  is exactly zero, the slot is \<^verbatim>\<open>None\<close>; otherwise it is
  \<open>(current - previous) / previous * 100\<close>. The division by zero is never reached.
\<close>

theorem growth_slot_guarded:
  assumes "calculate_growth_rates df = Inr out" and "j < length df" and "k < 4"
  shows "slot_try (df ! j) (metrics m ! Suc k) (metrics m ! k) \<noteq> Inl ZeroDivisionError \<and>
         Growth_Rates (out ! j) m ! k =
           (case ((df ! j) (metrics m ! Suc k), (df ! j) (metrics m ! k)) of
              (Some (Num c), Some (Num p)) \<Rightarrow>
                 if p = 0 then None else Some ((c - p) / p * 100)
            | _ \<Rightarrow> None)"
proof -
  from calculate_growth_rates_rows [OF assms(1)] assms(2)
  have "row_growth (df ! j) = Inr (out ! j)" by simp
  then have "Growth_Rates (out ! j) m = growth_rates (df ! j) (metrics m)"
    by (simp add: row_growth_fields)
  then show ?thesis
    using assms(3) by (simp add: growth_rates_nth slot_cases slot_try_no_zero_division)
qed

lemma company_B_out: "\<exists>cg. calculate_growth_rates [company_B] = Inr [cg]"
  by (simp add: row_growth_def lookup_def company_B_def)

theorem growth_slot_guarded_witness:
  "\<exists>cg. calculate_growth_rates [company_B] = Inr [cg] \<and>
     Growth_Rates cg Total_Revenue ! 0 = None \<and>
     Growth_Rates cg Total_Revenue ! 2 = Some (100 / 11) \<and>
     Growth_Rates cg Net_Income ! 1 = None \<and>
     Growth_Rates cg Net_Income ! 3 = None \<and>
     Growth_Rates cg EBITDA ! 0 = None"
proof -
  obtain cg where cg: "calculate_growth_rates [company_B] = Inr [cg]"
    using company_B_out by blast
  have j: "0 < length [company_B]" by simp
  have "Growth_Rates cg Total_Revenue ! 0 = None"
    using growth_slot_guarded [OF cg j, of 0 Total_Revenue] by (simp add: company_B_def)
  moreover have "Growth_Rates cg Total_Revenue ! 2 = Some (100 / 11)"
    using growth_slot_guarded [OF cg j, of 2 Total_Revenue] by (simp add: company_B_def)
  moreover have "Growth_Rates cg Net_Income ! 1 = None"
    using growth_slot_guarded [OF cg j, of 1 Net_Income] by (simp add: company_B_def)
  moreover have "Growth_Rates cg Net_Income ! 3 = None"
    using growth_slot_guarded [OF cg j, of 3 Net_Income] by (simp add: company_B_def)
  moreover have "Growth_Rates cg EBITDA ! 0 = None"
    using growth_slot_guarded [OF cg j, of 0 EBITDA] by (simp add: company_B_def)
  ultimately show ?thesis using cg by blast
qed

lemma growth_rates_5:
  "growth_rates r [c0, c1, c2, c3, c4] = [slot r c1 c0, slot r c2 c1, slot r c3 c2, slot r c4 c3]"
  by (simp add: growth_rates_def upt_1_5)

lemma length_growth_rates: "length (growth_rates r (metrics m)) = 4"
  by (simp add: growth_rates_metrics)

lemma row_of_table:
  "calculate_growth_rates df = Inr out \<Longrightarrow> j < length df \<Longrightarrow>
     Growth_Rates (out ! j) m = growth_rates (df ! j) (metrics m) \<and>
     Avg_Growth (out ! j) m = np_mean (not_None (growth_rates (df ! j) (metrics m)))"
  using calculate_growth_rates_rows [of df out] row_growth_fields [of "df ! j" "out ! j" m]
  by simp

lemma not_None_Nil: "not_None gs = [] \<longleftrightarrow> (\<forall>g \<in> set gs. g = None)"
  by (induction gs rule: not_None.induct) simp_all

text \<open>
  C2. Every metric of every row has four slots, and its average growth is the arithmetic
  mean of the slots that are not \<^verbatim>\<open>None\<close>; when all four slots are \<^verbatim>\<open>None\<close> the average is
  undefined (\<^verbatim>\<open>nan\<close>), not zero.
\<close>

theorem avg_growth_mean_of_defined:
  assumes "calculate_growth_rates df = Inr out" and "j < length df"
  shows "length (Growth_Rates (out ! j) m) = 4 \<and>
         Avg_Growth (out ! j) m =
           (let defined = map the (filter (\<lambda>g. g \<noteq> None) (Growth_Rates (out ! j) m))
            in if defined = [] then None
               else Some (sum_list defined / real (length defined))) \<and>
         ((\<forall>k < 4. Growth_Rates (out ! j) m ! k = None) \<longrightarrow> Avg_Growth (out ! j) m = None)"
proof -
  let ?gs = "Growth_Rates (out ! j) m"
  from row_of_table [OF assms]
  have gs: "?gs = growth_rates (df ! j) (metrics m)"
    and avg: "Avg_Growth (out ! j) m = np_mean (not_None ?gs)" by simp_all
  have len: "length ?gs = 4" by (simp add: gs length_growth_rates)
  have mean: "Avg_Growth (out ! j) m =
           (let defined = map the (filter (\<lambda>g. g \<noteq> None) ?gs)
            in if defined = [] then None
               else Some (sum_list defined / real (length defined)))"
    by (simp add: avg np_mean_def not_None_eq Let_def)
  have "Avg_Growth (out ! j) m = None" if "\<forall>k < 4. ?gs ! k = None"
  proof -
    from that len have "\<forall>g \<in> set ?gs. g = None" by (auto simp: in_set_conv_nth)
    then have "not_None ?gs = []" by (simp add: not_None_Nil)
    then show ?thesis by (simp add: avg np_mean_def)
  qed
  with len mean show ?thesis by blast
qed

theorem avg_growth_mean_of_defined_witness:
  "\<exists>cg. calculate_growth_rates [company_B] = Inr [cg] \<and>
     Avg_Growth cg Total_Revenue = Some (320 / 33) \<and>
     Avg_Growth cg Net_Income = Some (- 100) \<and> Avg_Growth cg EBITDA = None"
proof -
  obtain cg where cg: "calculate_growth_rates [company_B] = Inr [cg]"
    using company_B_out by blast
  have j: "0 < length [company_B]" by simp
  from row_of_table [OF cg j]
  have gs: "\<And>m. Growth_Rates cg m = growth_rates company_B (metrics m)" by simp
  have "Avg_Growth cg Total_Revenue = Some (320 / 33)"
    using avg_growth_mean_of_defined [OF cg j, of Total_Revenue, folded not_None_eq]
    by (simp add: gs growth_rates_5 slot_cases company_B_def)
  moreover have "Avg_Growth cg Net_Income = Some (- 100)"
    using avg_growth_mean_of_defined [OF cg j, of Net_Income, folded not_None_eq]
    by (simp add: gs growth_rates_5 slot_cases company_B_def)
  moreover have "Avg_Growth cg EBITDA = None"
    using avg_growth_mean_of_defined [OF cg j, of EBITDA, folded not_None_eq]
    by (simp add: gs growth_rates_5 slot_cases company_B_def)
  ultimately show ?thesis using cg by blast
qed

text \<open>
  C7. A row whose five revenue snapshots are 0, 50, 55, 60, 66 gets the revenue slots
  \<^verbatim>\<open>None\<close>, 10, 100/11 (9.0909...), 10 and the average 320/33, which is 9.70 to two
  decimals.
\<close>

theorem scenario_company_B:
  assumes "calculate_growth_rates df = Inr out" and "j < length df"
    and "(df ! j) ''Total Revenue [LTM - 16]'' = Some (Num 0)"
    and "(df ! j) ''Total Revenue [LTM - 12]'' = Some (Num 50)"
    and "(df ! j) ''Total Revenue [LTM - 8]'' = Some (Num 55)"
    and "(df ! j) ''Total Revenue [LTM - 4]'' = Some (Num 60)"
    and "(df ! j) ''Total Revenue [LTM]'' = Some (Num 66)"
  shows "Growth_Rates (out ! j) Total_Revenue = [None, Some 10, Some (100 / 11), Some 10] \<and>
         Avg_Growth (out ! j) Total_Revenue = Some (320 / 33) \<and>
         \<bar>100 / 11 - 9.0909\<bar> < (0.0001 :: real) \<and> \<bar>320 / 33 - 9.70\<bar> < (0.005 :: real)"
proof -
  from row_of_table [OF assms(1,2)]
  have gs: "Growth_Rates (out ! j) Total_Revenue = growth_rates (df ! j) (metrics Total_Revenue)"
    and avg: "Avg_Growth (out ! j) Total_Revenue =
                np_mean (not_None (growth_rates (df ! j) (metrics Total_Revenue)))" by simp_all
  have rates: "growth_rates (df ! j) (metrics Total_Revenue) =
                 [None, Some 10, Some (100 / 11), Some 10]"
    using assms(3-7) by (simp add: growth_rates_5 slot_cases)
  show ?thesis unfolding gs avg rates by (simp add: np_mean_def)
qed

theorem scenario_company_B_witness:
  "\<exists>cg0 cg. calculate_growth_rates [company_gap, company_B] = Inr [cg0, cg] \<and>
     Growth_Rates cg Total_Revenue = [None, Some 10, Some (100 / 11), Some 10] \<and>
     Avg_Growth cg Total_Revenue = Some (320 / 33)"
proof -
  obtain cg0 cg where out: "calculate_growth_rates [company_gap, company_B] = Inr [cg0, cg]"
    by (simp add: row_growth_def lookup_def company_B_def company_gap_def)
  have j: "1 < length [company_gap, company_B]" by simp
  show ?thesis
    using scenario_company_B [OF out j] out by (simp add: company_B_def)
qed

text \<open>
  C9. A slot whose prior value is a nonzero number and whose current value is exactly zero
  is the number -100, not \<^verbatim>\<open>None\<close>: only a zero prior value is guarded.
\<close>

theorem zero_current_minus_100:
  assumes "calculate_growth_rates df = Inr out" and "j < length df" and "k < 4"
    and "(df ! j) (metrics m ! k) = Some (Num p)" and "p \<noteq> 0"
    and "(df ! j) (metrics m ! Suc k) = Some (Num 0)"
  shows "Growth_Rates (out ! j) m ! k = Some (- 100)"
proof -
  from row_of_table [OF assms(1,2)]
  have "Growth_Rates (out ! j) m = growth_rates (df ! j) (metrics m)" by simp
  then show ?thesis
    using assms(3-6) by (simp add: growth_rates_nth slot_cases)
qed

theorem zero_current_minus_100_witness:
  "\<exists>cg. calculate_growth_rates [company_gap] = Inr [cg] \<and>
     Growth_Rates cg Total_Revenue ! 3 = Some (- 100)"
proof -
  obtain cg where out: "calculate_growth_rates [company_gap] = Inr [cg]"
    by (simp add: row_growth_def lookup_def company_gap_def)
  have j: "0 < length [company_gap]" by simp
  have k: "(3::nat) < 4" by simp
  have p: "(121::real) \<noteq> 0" by simp
  have "Growth_Rates ([cg] ! 0) Total_Revenue ! 3 = Some (- 100)"
    by (rule zero_current_minus_100 [OF out j k _ p]) (simp_all add: company_gap_def)
  then show ?thesis using out by simp
qed

lemma slot_try_KeyError:
  "r ci = None \<or> r cp = None \<Longrightarrow> slot_try r ci cp = Inl KeyError"
  by (auto simp: slot_try_def lookup_def split: option.splits)

text \<open>
  C6. When every row has the three identifying columns, which are read outside the
  \<^verbatim>\<open>try\<close>, the calculation returns one record per row. Every metric of every row has its
  four slots, each slot is what its own \<^verbatim>\<open>try\<close> block gives, with \<^verbatim>\<open>None\<close> for an exception, and
  a snapshot column missing from the row raises \<^verbatim>\<open>KeyError\<close> there and leaves \<^verbatim>\<open>None\<close> in that
  slot only.
\<close>

theorem slot_fault_isolated:
  assumes "\<forall>r \<in> set df. r ''Exchange:Ticker'' \<noteq> None \<and> r ''Company Name'' \<noteq> None \<and>
                        r ''Sector'' \<noteq> None"
  shows "\<exists>out. calculate_growth_rates df = Inr out \<and> length out = length df \<and>
           (\<forall>j < length df. \<forall>m.
              length (Growth_Rates (out ! j) m) = 4 \<and>
              (\<forall>k < 4.
                 Growth_Rates (out ! j) m ! k =
                   (case slot_try (df ! j) (metrics m ! Suc k) (metrics m ! k) of
                      Inl e \<Rightarrow> None | Inr g \<Rightarrow> g) \<and>
                 ((df ! j) (metrics m ! Suc k) = None \<or> (df ! j) (metrics m ! k) = None
                    \<longrightarrow> slot_try (df ! j) (metrics m ! Suc k) (metrics m ! k) = Inl KeyError
                        \<and> Growth_Rates (out ! j) m ! k = None)))"
proof -
  from calculate_growth_rates_total [OF assms]
  obtain out where out: "calculate_growth_rates df = Inr out" by blast
  have len: "length out = length df"
    using calculate_growth_rates_rows [OF out] by simp
  have "length (Growth_Rates (out ! j) m) = 4 \<and>
        (\<forall>k < 4.
           Growth_Rates (out ! j) m ! k =
             (case slot_try (df ! j) (metrics m ! Suc k) (metrics m ! k) of
                Inl e \<Rightarrow> None | Inr g \<Rightarrow> g) \<and>
           ((df ! j) (metrics m ! Suc k) = None \<or> (df ! j) (metrics m ! k) = None
              \<longrightarrow> slot_try (df ! j) (metrics m ! Suc k) (metrics m ! k) = Inl KeyError
                  \<and> Growth_Rates (out ! j) m ! k = None))"
    if j: "j < length df" for j m
  proof -
    from row_of_table [OF out j]
    have gs: "Growth_Rates (out ! j) m = growth_rates (df ! j) (metrics m)" by simp
    show ?thesis
      by (auto simp: gs length_growth_rates growth_rates_nth slot_def slot_try_KeyError)
  qed
  with out len show ?thesis by blast
qed

theorem slot_fault_isolated_witness:
  "\<exists>cg0 cg1. calculate_growth_rates [company_gap, company_B] = Inr [cg0, cg1] \<and>
     Growth_Rates cg0 Total_Revenue = [Some 10, None, None, Some (- 100)] \<and>
     Growth_Rates cg0 Net_Income = [None, None, None, None] \<and>
     Growth_Rates cg1 Total_Revenue = [None, Some 10, Some (100 / 11), Some 10]"
proof -
  have ids: "\<forall>r \<in> set [company_gap, company_B].
               r ''Exchange:Ticker'' \<noteq> None \<and> r ''Company Name'' \<noteq> None \<and> r ''Sector'' \<noteq> None"
    by (simp add: company_gap_def company_B_def)
  from slot_fault_isolated [OF ids]
  obtain out where out: "calculate_growth_rates [company_gap, company_B] = Inr out"
    and len: "length out = 2" by auto
  then obtain cg0 cg1 where o: "out = [cg0, cg1]"
    by (cases out; simp; rename_tac a as; case_tac as; simp)
  from row_of_table [OF out, of 0] row_of_table [OF out, of 1]
  have "Growth_Rates cg0 Total_Revenue = growth_rates company_gap (metrics Total_Revenue)"
    "Growth_Rates cg0 Net_Income = growth_rates company_gap (metrics Net_Income)"
    "Growth_Rates cg1 Total_Revenue = growth_rates company_B (metrics Total_Revenue)"
    by (simp_all add: o)
  then show ?thesis
    using out o by (simp add: growth_rates_5 slot_cases company_gap_def company_B_def)
qed

lemma isna_iff: "isna s \<longleftrightarrow> s = NaN"
  by (cases s) simp_all

lemma set_group_keys: "set (group_keys g) = set (map Sector g) - {NaN}"
  by (auto simp: group_keys_def isna_iff)

lemma distinct_group_keys: "distinct (group_keys g)"
  by (simp add: group_keys_def)

lemma sectors_of_sector_growth: "map sg_Sector (calculate_sector_growth g) = group_keys g"
  by (simp add: calculate_sector_growth_def comp_def)

lemma keys_sample: "group_keys sample_growth_df = [Str ''Fin'', Str ''Tech'']"
  by (simp add: group_keys_def sample_growth_df_def sample_growth_def less_eq_prod_def
       less_prod_def list_le_def list_less_def  less_eq_char_def less_char_def)

text \<open>
  C3, as the code has it. The sector table has exactly one record for every distinct
  sector value of its input that is not missing; records whose sector is missing form no
  group.
\<close>

theorem sector_groups_drop_missing:
  "set (map sg_Sector (calculate_sector_growth g)) = set (map Sector g) - {NaN} \<and>
   distinct (map sg_Sector (calculate_sector_growth g))"
  unfolding sectors_of_sector_growth by (simp add: set_group_keys distinct_group_keys)

text \<open>
  C3 as stated fails: the sample table has a record with a missing sector, and the sector
  table has the groups \<^verbatim>\<open>Fin\<close> and \<^verbatim>\<open>Tech\<close> only.
\<close>

theorem missing_sector_group_counterexample:
  "NaN \<in> set (map Sector sample_growth_df) \<and>
   map sg_Sector (calculate_sector_growth sample_growth_df) = [Str ''Fin'', Str ''Tech'']"
  by (simp add: sectors_of_sector_growth keys_sample) (simp add: sample_growth_df_def sample_growth_def)

lemma length_filter_mono:
  "(\<And>x. x \<in> set xs \<Longrightarrow> P x \<Longrightarrow> Q x) \<Longrightarrow> length (filter P xs) \<le> length (filter Q xs)"
  by (induction xs) auto

lemma length_filter_sort: "length (filter P (sort xs)) = length (filter P xs)"
  by (simp add: filter_sort)

lemma sorted_count_le:
  fixes s :: "real list"
  assumes "sorted s" and "i < length s"
  shows "Suc i \<le> length (filter (\<lambda>x. x \<le> s ! i) s)"
proof -
  have "\<forall>x \<in> set (take (Suc i) s). x \<le> s ! i"
  proof
    fix x assume "x \<in> set (take (Suc i) s)"
    then obtain k where "k < Suc i" "k < length s" "x = s ! k"
      by (auto simp: in_set_conv_nth)
    with assms show "x \<le> s ! i" by (simp add: sorted_nth_mono)
  qed
  then have "filter (\<lambda>x. x \<le> s ! i) (take (Suc i) s) = take (Suc i) s" by simp
  moreover have "filter (\<lambda>x. x \<le> s ! i) s =
      filter (\<lambda>x. x \<le> s ! i) (take (Suc i) s) @ filter (\<lambda>x. x \<le> s ! i) (drop (Suc i) s)"
    by (metis append_take_drop_id filter_append)
  ultimately show ?thesis using assms(2) by simp
qed

lemma sorted_count_ge:
  fixes s :: "real list"
  assumes "sorted s" and "i < length s"
  shows "length s - i \<le> length (filter (\<lambda>x. s ! i \<le> x) s)"
proof -
  have "\<forall>x \<in> set (drop i s). s ! i \<le> x"
  proof
    fix x assume "x \<in> set (drop i s)"
    then obtain k where "k < length s - i" "x = s ! (i + k)"
      by (auto simp: in_set_conv_nth)
    with assms show "s ! i \<le> x" by (simp add: sorted_nth_mono)
  qed
  then have "filter (\<lambda>x. s ! i \<le> x) (drop i s) = drop i s" by simp
  moreover have "filter (\<lambda>x. s ! i \<le> x) s =
      filter (\<lambda>x. s ! i \<le> x) (take i s) @ filter (\<lambda>x. s ! i \<le> x) (drop i s)"
    by (metis append_take_drop_id filter_append)
  ultimately show ?thesis by simp
qed

lemma median_halves:
  assumes "median xs = Some v"
  shows "length xs \<le> 2 * length (filter (\<lambda>x. x \<le> v) xs) \<and>
         length xs \<le> 2 * length (filter (\<lambda>x. v \<le> x) xs)"
proof -
  let ?s = "sort xs" and ?n = "length xs"
  from assms have ne: "xs \<noteq> []" by (auto simp: median_def)
  then have n: "0 < ?n" by simp
  have srt: "sorted ?s" and len: "length ?s = ?n" by simp_all
  show ?thesis
  proof (cases "odd ?n")
    case True
    with assms ne have v: "v = ?s ! (?n div 2)" by (simp add: median_def Let_def)
    have i: "?n div 2 < length ?s" using n by simp
    from sorted_count_le [OF srt i] sorted_count_ge [OF srt i]
    have "Suc (?n div 2) \<le> length (filter (\<lambda>x. x \<le> v) xs)"
      "?n - ?n div 2 \<le> length (filter (\<lambda>x. v \<le> x) xs)"
      by (simp_all add: v length_filter_sort)
    then show ?thesis by linarith
  next
    case False
    with assms ne have v: "v = (?s ! (?n div 2 - 1) + ?s ! (?n div 2)) / 2"
      by (simp add: median_def Let_def)
    from False n have n2: "?n = 2 * (?n div 2)" "0 < ?n div 2" by presburger+
    have "?n div 2 - 1 < ?n" and "?n div 2 < ?n" using n by arith+
    then have i: "?n div 2 - 1 < length ?s" and k: "?n div 2 < length ?s" by simp_all
    have mono: "?s ! (?n div 2 - 1) \<le> ?s ! (?n div 2)"
      using srt k by (simp add: sorted_nth_mono)
    then have lo: "?s ! (?n div 2 - 1) \<le> v" and hi: "v \<le> ?s ! (?n div 2)"
      by (simp_all add: v)
    have "Suc (?n div 2 - 1) \<le> length (filter (\<lambda>x. x \<le> ?s ! (?n div 2 - 1)) xs)"
      using sorted_count_le [OF srt i] by (simp add: length_filter_sort)
    also have "\<dots> \<le> length (filter (\<lambda>x. x \<le> v) xs)"
      using lo by (intro length_filter_mono) simp
    finally have a: "?n div 2 \<le> length (filter (\<lambda>x. x \<le> v) xs)" using n2 by simp
    have "?n - ?n div 2 \<le> length (filter (\<lambda>x. ?s ! (?n div 2) \<le> x) xs)"
      using sorted_count_ge [OF srt k] by (simp add: length_filter_sort)
    also have "\<dots> \<le> length (filter (\<lambda>x. v \<le> x) xs)"
      using hi by (intro length_filter_mono) simp
    finally have b: "?n - ?n div 2 \<le> length (filter (\<lambda>x. v \<le> x) xs)" .
    from a b n2 show ?thesis by linarith
  qed
qed

lemma sector_growth_member:
  assumes "sg \<in> set (calculate_sector_growth g)"
  shows "sg_Sector sg \<in> set (group_keys g) \<and>
         sg_Avg_Growth sg m =
           median (not_None (map (\<lambda>r. Avg_Growth r m) (filter (\<lambda>r. Sector r = sg_Sector sg) g)))"
  using assms by (auto simp: calculate_sector_growth_def group_rows_def)

text \<open>
  C4. For every record of the sector table and every metric, the value is the median of
  the defined per-company averages of that sector: undefined when there is none, the
  middle value of the sorted averages for an odd count, the mean of the two middle values
  for an even count. At least half of the averages lie at or below it and at least half at
  or above it.
\<close>

theorem sector_value_is_median:
  assumes "sg \<in> set (calculate_sector_growth g)"
  shows "let defined = map the (filter (\<lambda>a. a \<noteq> None)
                         (map (\<lambda>r. Avg_Growth r m) (filter (\<lambda>r. Sector r = sg_Sector sg) g)));
             n = length defined
         in (defined = [] \<longrightarrow> sg_Avg_Growth sg m = None) \<and>
            (odd n \<longrightarrow> sg_Avg_Growth sg m = Some (sort defined ! (n div 2))) \<and>
            (even n \<and> 0 < n \<longrightarrow>
               sg_Avg_Growth sg m =
                 Some ((sort defined ! (n div 2 - 1) + sort defined ! (n div 2)) / 2)) \<and>
            (\<forall>v. sg_Avg_Growth sg m = Some v \<longrightarrow>
               n \<le> 2 * length (filter (\<lambda>x. x \<le> v) defined) \<and>
               n \<le> 2 * length (filter (\<lambda>x. v \<le> x) defined))"
proof -
  define defined where "defined = map the (filter (\<lambda>a. a \<noteq> None)
                         (map (\<lambda>r. Avg_Growth r m) (filter (\<lambda>r. Sector r = sg_Sector sg) g)))"
  from sector_growth_member [OF assms, of m]
  have val: "sg_Avg_Growth sg m = median defined"
    by (simp add: defined_def not_None_eq)
  have "defined = [] \<longrightarrow> sg_Avg_Growth sg m = None"
    by (simp add: val median_def)
  moreover have "odd (length defined) \<longrightarrow>
      sg_Avg_Growth sg m = Some (sort defined ! (length defined div 2))"
    by (auto simp: val median_def Let_def)
  moreover have "even (length defined) \<and> 0 < length defined \<longrightarrow>
      sg_Avg_Growth sg m =
        Some ((sort defined ! (length defined div 2 - 1) + sort defined ! (length defined div 2)) / 2)"
    by (auto simp: val median_def Let_def)
  moreover have "\<forall>v. sg_Avg_Growth sg m = Some v \<longrightarrow>
      length defined \<le> 2 * length (filter (\<lambda>x. x \<le> v) defined) \<and>
      length defined \<le> 2 * length (filter (\<lambda>x. v \<le> x) defined)"
    using median_halves [of defined] by (simp add: val)
  ultimately show ?thesis
    unfolding Let_def defined_def [symmetric] by blast
qed

lemma sample_sector_growth:
  "length (calculate_sector_growth sample_growth_df) = 2 \<and>
   sg_Sector (calculate_sector_growth sample_growth_df ! 0) = Str ''Fin'' \<and>
   sg_Sector (calculate_sector_growth sample_growth_df ! 1) = Str ''Tech''"
proof -
  let ?out = "calculate_sector_growth sample_growth_df"
  have keys: "map sg_Sector ?out = [Str ''Fin'', Str ''Tech'']"
    by (simp add: sectors_of_sector_growth keys_sample)
  then have len: "length ?out = 2" by (metis length_map length_Cons list.size(3) numeral_2_eq_2)
  moreover from keys len have "sg_Sector (?out ! 0) = Str ''Fin''"
    by (metis nth_map nth_Cons_0 zero_less_numeral)
  moreover from keys len have "sg_Sector (?out ! 1) = Str ''Tech''"
    by (metis nth_map nth_Cons_0 nth_Cons_Suc One_nat_def one_less_numeral_iff semiring_norm(76))
  ultimately show ?thesis by simp
qed

theorem sector_value_is_median_witness:
  "sg_Avg_Growth (calculate_sector_growth sample_growth_df ! 1) Total_Revenue = Some 15 \<and>
   sg_Avg_Growth (calculate_sector_growth sample_growth_df ! 0) Net_Income = None"
proof -
  define fin where "fin = calculate_sector_growth sample_growth_df ! 0"
  define tech where "tech = calculate_sector_growth sample_growth_df ! 1"
  have m0: "fin \<in> set (calculate_sector_growth sample_growth_df)"
    and m1: "tech \<in> set (calculate_sector_growth sample_growth_df)"
    and s0: "sg_Sector fin = Str ''Fin''" and s1: "sg_Sector tech = Str ''Tech''"
    using sample_sector_growth by (simp_all add: fin_def tech_def)
  have "sg_Avg_Growth tech Total_Revenue = Some 15"
    using sector_value_is_median [OF m1, of Total_Revenue, unfolded Let_def, folded not_None_eq]
    by (simp add: s1 sample_growth_df_def sample_growth_def)
  moreover have "sg_Avg_Growth fin Net_Income = None"
    using sector_value_is_median [OF m0, of Net_Income, unfolded Let_def, folded not_None_eq]
    by (simp add: s0 sample_growth_df_def sample_growth_def)
  ultimately show ?thesis by (simp add: fin_def tech_def)
qed

lemma filter_key_distinct:
  "distinct (map fst xs) \<Longrightarrow>
     filter (\<lambda>(t, s). t = k) xs = (case map_of xs k of None \<Rightarrow> [] | Some s \<Rightarrow> [(k, s)])"
proof (induction xs)
  case Nil
  then show ?case by simp
next
  case (Cons x xs)
  obtain t s where x: "x = (t, s)" by (cases x)
  show ?case
  proof (cases "t = k")
    case True
    with Cons.prems x have "k \<notin> fst ` set xs" by auto
    then have "map_of xs k = None" by (simp add: map_of_eq_None_iff)
    with Cons x True show ?thesis by simp
  next
    case False
    with Cons x show ?thesis by simp
  qed
qed

lemma matches_distinct:
  "distinct (map fst sector_df) \<Longrightarrow>
     matches l k sector_df =
       [case map_of sector_df k of None \<Rightarrow> merged_row l NaN NaN | Some s \<Rightarrow> merged_row l k s]"
  by (simp add: matches_def filter_key_distinct split: option.splits)

lemma left_keys_rows:
  "left_keys ls = Inr lk \<Longrightarrow>
     length lk = length ls \<and> (\<forall>i < length ls. (ls ! i) ''Exchange:Ticker'' = Some (lk ! i))"
proof (induction ls arbitrary: lk)
  case Nil
  then show ?case by simp
next
  case (Cons l ls)
  from Cons.prems obtain k ks where
    k: "l ''Exchange:Ticker'' = Some k" and ks: "left_keys ls = Inr ks" and lk: "lk = k # ks"
    by (auto split: option.splits sum.splits)
  from Cons.IH [OF ks] have ih: "length ks = length ls"
    "\<forall>i < length ls. (ls ! i) ''Exchange:Ticker'' = Some (ks ! i)" by simp_all
  show ?case
  proof (intro conjI allI impI)
    show "length lk = length (l # ls)" using lk ih by simp
  next
    fix i assume "i < length (l # ls)"
    then show "((l # ls) ! i) ''Exchange:Ticker'' = Some (lk ! i)"
      using k lk ih by (cases i) simp_all
  qed
qed

lemma left_keys_total:
  "\<forall>l \<in> set ls. l ''Exchange:Ticker'' \<noteq> None \<Longrightarrow>
     left_keys ls = Inr (map (\<lambda>l. the (l ''Exchange:Ticker'')) ls)"
  by (induction ls) (simp_all split: option.splits)

lemma load_returns_iff:
  "load_and_preprocess_data financial_df sector_df = Inr out \<longleftrightarrow>
     sector_df \<noteq> [] \<and>
     (\<exists>lk. left_keys financial_df = Inr lk \<and> \<not> incompatible_keys lk (map fst sector_df) \<and>
           out = concat (map (\<lambda>(l, k). matches l k sector_df) (zip financial_df lk)))"
  by (cases "left_keys financial_df")
     (auto simp: load_and_preprocess_data_def merge_left_def)

lemma concat_matches_distinct:
  assumes "distinct (map fst sector_df)"
  shows "concat (map (\<lambda>(l, k). matches l k sector_df) ps) =
           map (\<lambda>(l, k). merged_row l (case map_of sector_df k of None \<Rightarrow> NaN | Some s \<Rightarrow> k)
                                      (case map_of sector_df k of None \<Rightarrow> NaN | Some s \<Rightarrow> s)) ps"
proof (induction ps)
  case Nil
  then show ?case by simp
next
  case (Cons p ps)
  obtain l k where p: "p = (l, k)" by (cases p)
  have "matches l k sector_df =
          [merged_row l (case map_of sector_df k of None \<Rightarrow> NaN | Some s \<Rightarrow> k)
                        (case map_of sector_df k of None \<Rightarrow> NaN | Some s \<Rightarrow> s)]"
    by (cases "map_of sector_df k") (simp_all add: matches_distinct [OF assms])
  with Cons p show ?case by simp
qed

lemma merged_row_other:
  "c \<noteq> ''Ticker'' \<Longrightarrow> c \<noteq> ''Sector'' \<Longrightarrow>
   l ''Ticker'' = None \<or> (c \<noteq> ''Ticker_x'' \<and> c \<noteq> ''Ticker_y'') \<Longrightarrow>
   l ''Sector'' = None \<or> (c \<noteq> ''Sector_x'' \<and> c \<noteq> ''Sector_y'') \<Longrightarrow>
   merged_row l t s c = l c"
  by (cases "l ''Ticker''"; cases "l ''Sector''")
     (simp_all add: merged_row_def rename_x_def right_name_def)

lemma merged_row_suffix_x:
  "c = ''Ticker'' \<or> c = ''Sector'' \<Longrightarrow> l c \<noteq> None \<Longrightarrow> merged_row l t s (c @ ''_x'') = l c"
proof (erule disjE)
  assume "c = ''Ticker''" and "l c \<noteq> None"
  then show ?thesis
    by (cases "l ''Ticker''"; cases "l ''Sector''")
       (simp_all add: merged_row_def rename_x_def right_name_def)
next
  assume "c = ''Sector''" and "l c \<noteq> None"
  then show ?thesis
    by (cases "l ''Ticker''"; cases "l ''Sector''")
       (simp_all add: merged_row_def rename_x_def right_name_def)
qed

lemma merged_row_sector: "merged_row l t s (right_name l ''Sector'') = Some s"
  by (simp add: merged_row_def)

text \<open>
  C5, as the code has it. When no ticker occurs twice in the secondary tab and the loader
  returns a table, the join returns the rows of the primary tab one for one and in order.
  Every column keeps its value under its label (a column already named \<^verbatim>\<open>Ticker\<close> or
  \<^verbatim>\<open>Sector\<close> under that label with the suffix \<^verbatim>\<open>_x\<close>), and the row gains one sector value,
  that of its ticker in the secondary tab, missing when the ticker is not there.
\<close>

theorem left_join_keeps_rows:
  assumes "distinct (map fst sector_df)"
    and "load_and_preprocess_data financial_df sector_df = Inr out"
  shows "length out = length financial_df \<and>
         (\<forall>i < length financial_df.
            \<exists>k. (financial_df ! i) ''Exchange:Ticker'' = Some k \<and>
              (\<forall>c. c \<noteq> ''Ticker'' \<and> c \<noteq> ''Sector'' \<and>
                   ((financial_df ! i) ''Ticker'' = None \<or> (c \<noteq> ''Ticker_x'' \<and> c \<noteq> ''Ticker_y'')) \<and>
                   ((financial_df ! i) ''Sector'' = None \<or> (c \<noteq> ''Sector_x'' \<and> c \<noteq> ''Sector_y''))
                   \<longrightarrow> (out ! i) c = (financial_df ! i) c) \<and>
              (\<forall>c. (c = ''Ticker'' \<or> c = ''Sector'') \<and> (financial_df ! i) c \<noteq> None
                   \<longrightarrow> (out ! i) (c @ ''_x'') = (financial_df ! i) c) \<and>
              (out ! i) (right_name (financial_df ! i) ''Sector'') =
                 Some (case map_of sector_df k of None \<Rightarrow> NaN | Some s \<Rightarrow> s) \<and>
              (k \<notin> fst ` set sector_df
                 \<longrightarrow> (out ! i) (right_name (financial_df ! i) ''Sector'') = Some NaN))"
proof -
  from assms(2) obtain lk where lk: "left_keys financial_df = Inr lk"
    and out: "out = concat (map (\<lambda>(l, k). matches l k sector_df) (zip financial_df lk))"
    by (auto simp: load_returns_iff)
  from left_keys_rows [OF lk] have len: "length lk = length financial_df"
    and keys: "\<forall>i < length financial_df. (financial_df ! i) ''Exchange:Ticker'' = Some (lk ! i)"
    by simp_all
  have out': "out = map (\<lambda>(l, k). merged_row l
                           (case map_of sector_df k of None \<Rightarrow> NaN | Some s \<Rightarrow> k)
                           (case map_of sector_df k of None \<Rightarrow> NaN | Some s \<Rightarrow> s))
                        (zip financial_df lk)"
    unfolding out by (rule concat_matches_distinct [OF assms(1)])
  have length: "length out = length financial_df" by (simp add: out' len)
  have row: "\<exists>k. (financial_df ! i) ''Exchange:Ticker'' = Some k \<and>
              (\<forall>c. c \<noteq> ''Ticker'' \<and> c \<noteq> ''Sector'' \<and>
                   ((financial_df ! i) ''Ticker'' = None \<or> (c \<noteq> ''Ticker_x'' \<and> c \<noteq> ''Ticker_y'')) \<and>
                   ((financial_df ! i) ''Sector'' = None \<or> (c \<noteq> ''Sector_x'' \<and> c \<noteq> ''Sector_y''))
                   \<longrightarrow> (out ! i) c = (financial_df ! i) c) \<and>
              (\<forall>c. (c = ''Ticker'' \<or> c = ''Sector'') \<and> (financial_df ! i) c \<noteq> None
                   \<longrightarrow> (out ! i) (c @ ''_x'') = (financial_df ! i) c) \<and>
              (out ! i) (right_name (financial_df ! i) ''Sector'') =
                 Some (case map_of sector_df k of None \<Rightarrow> NaN | Some s \<Rightarrow> s) \<and>
              (k \<notin> fst ` set sector_df
                 \<longrightarrow> (out ! i) (right_name (financial_df ! i) ''Sector'') = Some NaN)"
    if i: "i < length financial_df" for i
  proof -
    define l where "l = financial_df ! i"
    define k where "k = lk ! i"
    define t where "t = (case map_of sector_df (lk ! i) of None \<Rightarrow> NaN | Some s \<Rightarrow> lk ! i)"
    define s where "s = (case map_of sector_df k of None \<Rightarrow> NaN | Some s \<Rightarrow> s)"
    from i len have oi: "out ! i = merged_row l t s"
      by (simp add: out' l_def k_def t_def s_def)
    from keys i have key: "l ''Exchange:Ticker'' = Some k" by (simp add: l_def k_def)
    have absent: "s = NaN" if "k \<notin> fst ` set sector_df"
      using that by (simp add: s_def map_of_eq_None_iff [THEN iffD2])
    have "(\<forall>c. c \<noteq> ''Ticker'' \<and> c \<noteq> ''Sector'' \<and>
               (l ''Ticker'' = None \<or> (c \<noteq> ''Ticker_x'' \<and> c \<noteq> ''Ticker_y'')) \<and>
               (l ''Sector'' = None \<or> (c \<noteq> ''Sector_x'' \<and> c \<noteq> ''Sector_y''))
               \<longrightarrow> (out ! i) c = l c)"
      unfolding oi using merged_row_other [of _ l t s] by blast
    moreover have "(\<forall>c. (c = ''Ticker'' \<or> c = ''Sector'') \<and> l c \<noteq> None
               \<longrightarrow> (out ! i) (c @ ''_x'') = l c)"
      unfolding oi using merged_row_suffix_x [of _ l t s] by blast
    moreover have "(out ! i) (right_name l ''Sector'') = Some s"
      unfolding oi by (rule merged_row_sector)
    moreover have "k \<notin> fst ` set sector_df \<longrightarrow> (out ! i) (right_name l ''Sector'') = Some NaN"
      unfolding oi using absent by (simp add: merged_row_sector)
    ultimately show ?thesis
      using key unfolding l_def [symmetric] s_def by blast
  qed
  from length row show ?thesis by blast
qed

lemma sample_load:
  "load_and_preprocess_data [financial_B, financial_gap] sector_tab =
     Inr [merged_row financial_B (Str ''NSEI:B'') (Str ''Tech''), merged_row financial_gap NaN NaN]"
  by (simp add: load_and_preprocess_data_def merge_left_def incompatible_keys_def
        string_like_def object_dtype_def matches_def sector_tab_def
        financial_B_def financial_gap_def company_B_def company_gap_def)

text \<open>
  The loader raises on an empty second sheet, on text tickers against a secondary tab whose
  tickers are all numbers, and on a primary tab without the ticker column.
\<close>

lemma loader_raises:
  "load_and_preprocess_data financial_df [] = Inl ValueError"
  "load_and_preprocess_data [financial_B, financial_gap] sector_tab_codes = Inl ValueError"
  "load_and_preprocess_data [Map.empty] sector_tab = Inl KeyError"
  by (simp_all add: load_and_preprocess_data_def merge_left_def incompatible_keys_def
        string_like_def object_dtype_def sector_tab_def sector_tab_codes_def
        financial_B_def financial_gap_def company_B_def company_gap_def)

text \<open>
  C5 as stated fails: a ticker listed twice in the secondary tab makes the left join return
  the primary row twice, once with each sector.
\<close>

theorem duplicate_ticker_counterexample:
  "load_and_preprocess_data [financial_B] sector_tab_dup =
     Inr [merged_row financial_B (Str ''NSEI:B'') (Str ''Tech''),
          merged_row financial_B (Str ''NSEI:B'') (Str ''Fin'')]"
  by (simp add: load_and_preprocess_data_def merge_left_def incompatible_keys_def
        string_like_def object_dtype_def matches_def sector_tab_dup_def
        financial_B_def company_B_def)

theorem left_join_keeps_rows_witness:
  "\<exists>b a. load_and_preprocess_data [financial_B, financial_gap] sector_tab = Inr [b, a] \<and>
     b ''Sector'' = Some (Str ''Tech'') \<and> a ''Sector'' = Some NaN \<and>
     b ''Total Revenue [LTM]'' = Some (Num 66) \<and> a ''Company Name'' = Some (Str ''A Ltd'')"
proof -
  define b where "b = merged_row financial_B (Str ''NSEI:B'') (Str ''Tech'')"
  define a where "a = merged_row financial_gap NaN NaN"
  have d: "distinct (map fst sector_tab)" by (simp add: sector_tab_def)
  have load: "load_and_preprocess_data [financial_B, financial_gap] sector_tab = Inr [b, a]"
    unfolding b_def a_def by (rule sample_load)
  note rows = left_join_keeps_rows [OF d load, THEN conjunct2, rule_format]
  have "b ''Sector'' = Some (Str ''Tech'')" "b ''Total Revenue [LTM]'' = Some (Num 66)"
    using rows [of 0]
    by (auto simp: right_name_def sector_tab_def financial_B_def company_B_def)
  moreover have "a ''Sector'' = Some NaN" "a ''Company Name'' = Some (Str ''A Ltd'')"
    using rows [of 1]
    by (auto simp: right_name_def sector_tab_def financial_gap_def company_gap_def)
  ultimately show ?thesis using load by blast
qed

lemma main_tables:
  "main tab0 tab1 selected_sectors = Inr d \<longleftrightarrow>
     (\<exists>financial_df g.
        load_and_preprocess_data tab0 tab1 = Inr financial_df \<and>
        calculate_growth_rates financial_df = Inr g \<and>
        d = \<lparr>growth_df = g, sector_growth_df = calculate_sector_growth g,
             filtered_growth_df = filter (\<lambda>r. Sector r \<in> set selected_sectors) g,
             filtered_sector_growth_df =
               filter (\<lambda>r. sg_Sector r \<in> set selected_sectors) (calculate_sector_growth g)\<rparr>)"
  by (auto simp: main_def isin_def Let_def split: sum.splits)

text \<open>
  C8. Each filtered table is a sub-sequence of its derived table, holding exactly the rows
  whose sector is one of the selected ones, so every surviving row is a row of the derived
  table, unchanged. The derived tables themselves are the same for every selection.
\<close>

theorem filter_is_row_subset:
  assumes "main tab0 tab1 selected_sectors = Inr d"
  shows "subseq (filtered_growth_df d) (growth_df d) \<and>
         subseq (filtered_sector_growth_df d) (sector_growth_df d) \<and>
         set (filtered_growth_df d) = {r \<in> set (growth_df d). Sector r \<in> set selected_sectors} \<and>
         set (filtered_sector_growth_df d) =
           {r \<in> set (sector_growth_df d). sg_Sector r \<in> set selected_sectors} \<and>
         (\<forall>other. \<exists>d'. main tab0 tab1 other = Inr d' \<and> growth_df d' = growth_df d \<and>
                         sector_growth_df d' = sector_growth_df d)"
proof -
  from assms obtain financial_df g where
    load: "load_and_preprocess_data tab0 tab1 = Inr financial_df"
    and g: "calculate_growth_rates financial_df = Inr g"
    and d: "d = \<lparr>growth_df = g, sector_growth_df = calculate_sector_growth g,
             filtered_growth_df = filter (\<lambda>r. Sector r \<in> set selected_sectors) g,
             filtered_sector_growth_df =
               filter (\<lambda>r. sg_Sector r \<in> set selected_sectors) (calculate_sector_growth g)\<rparr>"
    by (auto simp: main_tables)
  have "\<exists>d'. main tab0 tab1 other = Inr d' \<and> growth_df d' = growth_df d \<and>
              sector_growth_df d' = sector_growth_df d" for other
    using load g by (simp add: main_tables d)
  then show ?thesis by (auto simp: d)
qed

theorem filter_is_row_subset_witness:
  "\<exists>d. main [financial_B, financial_gap] sector_tab [Str ''Tech''] = Inr d \<and>
     map Sector (growth_df d) = [Str ''Tech'', NaN] \<and>
     map Sector (filtered_growth_df d) = [Str ''Tech''] \<and>
     subseq (filtered_growth_df d) (growth_df d)"
proof -
  have load: "load_and_preprocess_data [financial_B, financial_gap] sector_tab =
      Inr [merged_row financial_B (Str ''NSEI:B'') (Str ''Tech''), merged_row financial_gap NaN NaN]"
    by (rule sample_load)
  have "\<exists>g. calculate_growth_rates
      [merged_row financial_B (Str ''NSEI:B'') (Str ''Tech''), merged_row financial_gap NaN NaN] = Inr g"
    by (rule calculate_growth_rates_total)
       (simp add: merged_row_def rename_x_def right_name_def
          financial_B_def financial_gap_def company_B_def company_gap_def)
  then obtain g where g: "calculate_growth_rates
      [merged_row financial_B (Str ''NSEI:B'') (Str ''Tech''), merged_row financial_gap NaN NaN] = Inr g"
    by blast
  from calculate_growth_rates_rows [OF g]
  have len: "length g = 2"
    and r0: "row_growth (merged_row financial_B (Str ''NSEI:B'') (Str ''Tech'')) = Inr (g ! 0)"
    and r1: "row_growth (merged_row financial_gap NaN NaN) = Inr (g ! 1)"
    by auto
  from len obtain b a where ba: "g = [b, a]"
    by (cases g; simp; rename_tac x xs; case_tac xs; simp)
  from r0 r1 have sec: "Sector b = Str ''Tech''" "Sector a = NaN"
    by (auto simp: ba row_growth_def lookup_def merged_row_def rename_x_def right_name_def
          financial_B_def financial_gap_def company_B_def company_gap_def split: sum.splits)
  from load g obtain d where d: "main [financial_B, financial_gap] sector_tab [Str ''Tech''] = Inr d"
    and gd: "growth_df d = g" and fd: "filtered_growth_df d = filter (\<lambda>r. Sector r \<in> set [Str ''Tech'']) g"
    by (simp add: main_tables)
  from filter_is_row_subset [OF d] have "subseq (filtered_growth_df d) (growth_df d)" by blast
  with d gd fd sec ba show ?thesis by auto
qed

end
